theory Spec2Isabelle
  imports Main "HOL-Library.Sublist"
begin

section \<open>Strings\<close>

text \<open>
  A JavaScript string is modelled as a \<^typ>\<open>string\<close>, one \<^typ>\<open>char\<close> per code unit.
  The operations the backend uses (\<^verbatim>\<open>===\<close>, \<^verbatim>\<open>startsWith\<close>, \<^verbatim>\<open>includes\<close>,
  \<^verbatim>\<open>substring(1)\<close>, concatenation) work unit by unit, so they are list operations.
\<close>

definition startsWith :: "string \<Rightarrow> string \<Rightarrow> bool" where
  "startsWith s p = prefix p s"

text \<open>\<^verbatim>\<open>s.includes(p)\<close>: \<open>p\<close> occurs in \<open>s\<close> at some position.\<close>

fun includes_str :: "string \<Rightarrow> string \<Rightarrow> bool" where
  "includes_str [] p = (p = [])"
| "includes_str (c # s) p = (prefix p (c # s) \<or> includes_str s p)"

text \<open>
  Truthiness of an optional string parameter (\<^verbatim>\<open>string | undefined\<close>):
  \<^verbatim>\<open>undefined\<close> and the empty string are falsy.
\<close>

fun truthy :: "string option \<Rightarrow> bool" where
  "truthy None = False"
| "truthy (Some s) = (s \<noteq> [])"

section \<open>Tool-permission filter (handlers/chat.ts, \<open>getAllowedTools\<close>)\<close>

text \<open>
  The chat handler is the source file \<^verbatim>\<open>src/unnamed/part_001\<close>, which
  \<^verbatim>\<open>backend/app.ts\<close> imports as \<^verbatim>\<open>handlers/chat.ts\<close>; line numbers are those of
  that file.
\<close>

definition READ_ONLY_TOOLS :: "string list" where
  "READ_ONLY_TOOLS = [''Read'', ''Grep'', ''Glob'', ''LSP'', ''Task'']"

definition BLOCKED_WRITE_TOOLS :: "string list" where
  "BLOCKED_WRITE_TOOLS = [''Write'', ''Edit'', ''Delete'', ''Move'', ''Bash'']"

text \<open>
  The test of line 38:
  \<^verbatim>\<open>BLOCKED_WRITE_TOOLS.some(blocked => tool === blocked || tool.startsWith(blocked + "("))\<close>
\<close>

definition is_blocked :: "string \<Rightarrow> bool" where
  "is_blocked tool =
     list_ex (\<lambda>blocked. tool = blocked \<or> startsWith tool (blocked @ ''('')) BLOCKED_WRITE_TOOLS"

text \<open>
  The \<^verbatim>\<open>for (const tool of frontendAllowedTools)\<close> loop of lines 36 to 45; the first
  argument is the array \<^verbatim>\<open>tools\<close> built so far, \<^verbatim>\<open>push\<close> appends at the end.
\<close>

fun add_tools :: "string list \<Rightarrow> string list \<Rightarrow> string list" where
  "add_tools tools [] = tools"
| "add_tools tools (tool # rest) =
     (if is_blocked tool then add_tools tools rest
      else if tool \<notin> set tools then add_tools (tools @ [tool]) rest
      else add_tools tools rest)"

text \<open>
  \<^verbatim>\<open>frontendAllowedTools?: string[]\<close> is \<open>None\<close> when the argument is left out.
  An array is truthy even when empty, so \<^verbatim>\<open>if (frontendAllowedTools)\<close> tests presence.
\<close>

definition getAllowedTools :: "string list option \<Rightarrow> string list" where
  "getAllowedTools frontendAllowedTools =
     (let tools = READ_ONLY_TOOLS in
      case frontendAllowedTools of
        None \<Rightarrow> tools
      | Some approved \<Rightarrow> add_tools tools approved)"

subsection \<open>The filter as the specification words it\<close>

text \<open>
  An entry is blocklisted when it equals one of the five write-capable names or starts
  with one of them followed by an opening parenthesis.
\<close>

definition spec_blocklisted :: "string \<Rightarrow> bool" where
  "spec_blocklisted t =
     (\<exists>b \<in> {''Write'', ''Edit'', ''Delete'', ''Move'', ''Bash''}.
        t = b \<or> (\<exists>args. t = b @ ''('' @ args))"

text \<open>Keeps the first occurrence of every element, in the original order.\<close>

definition first_occurrences :: "'a list \<Rightarrow> 'a list" where
  "first_occurrences xs = rev (remdups (rev xs))"

text \<open>
  Baseline first, then the user-approved entries in their order, without the blocklisted
  ones and without those already in the result.
\<close>

definition spec_allowed_tools :: "string list \<Rightarrow> string list" where
  "spec_allowed_tools approved =
     [''Read'', ''Grep'', ''Glob'', ''LSP'', ''Task''] @
     first_occurrences
       (filter (\<lambda>t. \<not> spec_blocklisted t \<and> t \<notin> set [''Read'', ''Grep'', ''Glob'', ''LSP'', ''Task''])
          approved)"

section \<open>Thrown values\<close>

text \<open>
  A value that a JavaScript \<^verbatim>\<open>throw\<close> raised can be any value at all, so it is
  modelled by what the handlers can observe of it, each observation either returning or
  throwing in its turn (\<open>Inl\<close> the value thrown):
  \<^item> \<^verbatim>\<open>error instanceof Error\<close>,
  \<^item> reading \<^verbatim>\<open>error.message\<close> and \<^verbatim>\<open>error.name\<close>,
  \<^item> the conversion \<^verbatim>\<open>String(error)\<close>, which runs the value's own \<^verbatim>\<open>toString\<close>.

  A property value is a string, or some other value; of the latter the handlers observe
  what the call \<^verbatim>\<open>.includes("aborted by user")\<close> on it does (it throws a
  \<^verbatim>\<open>TypeError\<close> on \<^verbatim>\<open>undefined\<close>, \<^verbatim>\<open>null\<close>, a number or a plain object) and
  whether the value is truthy.
\<close>

datatype thrown =
  Thrown (instanceof_Error: "thrown + bool")
         (get_message: "thrown + prop_value")
         (get_name: "thrown + prop_value")
         (String_conversion: "thrown + string")
and prop_value =
  Text string
| Non_text (includes_marker: "thrown + bool") (truthiness: bool)

section \<open>Rules loader (rules/loader.ts)\<close>

text \<open>
  The module variables \<^verbatim>\<open>cachedRules\<close> and \<^verbatim>\<open>rulesPath\<close>, both
  \<^verbatim>\<open>string | null\<close> and \<^verbatim>\<open>null\<close> at start.
\<close>

record loader_state =
  cachedRules :: "string option"
  rulesPath :: "string option"

definition initial_loader_state :: loader_state where
  "initial_loader_state = \<lparr>cachedRules = None, rulesPath = None\<rparr>"

text \<open>
  The constant \<^verbatim>\<open>DEFAULT_RULES\<close> is a fixed text outside ASCII; no property depends on
  its content, so the functions below take it as their first argument. The file system is
  two functions: \<^verbatim>\<open>existsSync\<close>, which never throws, and \<^verbatim>\<open>readFile\<close>, which
  yields the content or rejects with a thrown value. The result of \<open>loadRules\<close> is the
  settled promise: \<open>Inr\<close> the resolved text, \<open>Inl\<close> a rejection. Where
  \<open>the (rulesPath st)\<close> is read, the path has passed the truthiness test.
\<close>

definition loadRules ::
  "string \<Rightarrow> (string \<Rightarrow> bool) \<Rightarrow> (string \<Rightarrow> thrown + string) \<Rightarrow> loader_state
     \<Rightarrow> (thrown + string) \<times> loader_state" where
  "loadRules DEFAULT_RULES existsSync readFile st =
     (if \<not> truthy (rulesPath st) then (Inr DEFAULT_RULES, st)
      else if \<not> existsSync (the (rulesPath st))
      then (Inr DEFAULT_RULES, st\<lparr>cachedRules := Some DEFAULT_RULES\<rparr>)
      else (case readFile (the (rulesPath st)) of
              Inr content \<Rightarrow> (Inr content, st\<lparr>cachedRules := Some content\<rparr>)
            | Inl error \<Rightarrow> (Inr DEFAULT_RULES, st\<lparr>cachedRules := Some DEFAULT_RULES\<rparr>)))"

text \<open>\<^verbatim>\<open>cachedRules ?? DEFAULT_RULES\<close>\<close>

definition getCachedRules :: "string \<Rightarrow> loader_state \<Rightarrow> string" where
  "getCachedRules DEFAULT_RULES st =
     (case cachedRules st of None \<Rightarrow> DEFAULT_RULES | Some c \<Rightarrow> c)"

section \<open>Rule injector (handlers/chat.ts, \<open>prepareMessageWithRules\<close>)\<close>

text \<open>
  The template literal of lines 65 to 68 puts a line break, an empty line, the line
  \<^verbatim>\<open>---\<close> and \<^verbatim>\<open>User message: \<close> between the rules and the message.
\<close>

definition rules_separator :: string where
  "rules_separator = [CHR 0x0A, CHR 0x0A] @ ''---'' @ [CHR 0x0A] @ ''User message: ''"

definition prepareMessageWithRules ::
  "string \<Rightarrow> loader_state \<Rightarrow> string \<Rightarrow> string option \<Rightarrow> string" where
  "prepareMessageWithRules DEFAULT_RULES st message sessionId =
     (if truthy sessionId then message
      else (let rules = getCachedRules DEFAULT_RULES st
            in rules @ rules_separator @ message))"

section \<open>Turn executor (handlers/chat.ts, \<open>executeClaudeCommand\<close>)\<close>

text \<open>
  The normalized outbound event; \<open>'m\<close> is the engine's opaque message. The
  \<^verbatim>\<open>error\<close> field of an error event holds whatever value the \<^verbatim>\<open>catch\<close> block put
  there.
\<close>

datatype 'm StreamResponse =
  Claude_json 'm
| Done
| Aborted
| Error_event prop_value

fun is_terminal :: "'m StreamResponse \<Rightarrow> bool" where
  "is_terminal (Claude_json _) = False"
| "is_terminal Done = True"
| "is_terminal Aborted = True"
| "is_terminal (Error_event _) = True"

text \<open>An \<^verbatim>\<open>AbortController\<close> object, by its identity.\<close>

type_synonym AbortController = nat

text \<open>
  The values stored in the options object handed to the engine. \<open>Undefined\<close> and
  \<open>Null\<close> are the placeholders a key could carry without being absent.
\<close>

datatype js_value =
  Undefined
| Null
| Str string
| Str_array "string list"
| Controller AbortController

text \<open>An object literal is a map from its keys to their values.\<close>

type_synonym js_object = "string \<rightharpoonup> js_value"

record engine_call =
  prompt :: string
  options :: js_object

text \<open>
  What one call of the engine's \<^verbatim>\<open>query\<close> does while the loop of line 119 consumes
  it: it hands out finitely many messages and then either ends or throws.
\<close>

datatype 'm engine_outcome =
  Ends "'m list"
| Throws "'m list" thrown

type_synonym 'm engine = "engine_call \<Rightarrow> 'm engine_outcome"

text \<open>How a block of statements completes: normally, or by a thrown value.\<close>

datatype completion = Normal | Throw thrown

text \<open>
  The state a turn works on: the shared map \<^verbatim>\<open>requestAbortControllers\<close>, the events
  yielded so far, and the calls made to the engine so far.
\<close>

record 'm turn_state =
  registry :: "string \<rightharpoonup> AbortController"
  yielded :: "'m StreamResponse list"
  engine_calls :: "engine_call list"

text \<open>
  The options literal of lines 121 to 130. A spread \<^verbatim>\<open>...(c ? {k: v} : {})\<close> adds the
  key when the condition is truthy and adds nothing otherwise; later entries override
  earlier ones, as \<open>++\<close> does. Where \<open>the\<close> reads an optional parameter, the
  parameter has passed the truthiness test.
\<close>

definition query_options ::
  "AbortController \<Rightarrow> string \<Rightarrow> string option \<Rightarrow> string list \<Rightarrow> string option \<Rightarrow> string option
     \<Rightarrow> js_object" where
  "query_options abortController cliPath sessionId safeAllowedTools workingDirectory
       permissionMode =
     [''abortController'' \<mapsto> Controller abortController,
      ''executable'' \<mapsto> Str ''node'',
      ''executableArgs'' \<mapsto> Str_array [],
      ''pathToClaudeCodeExecutable'' \<mapsto> Str cliPath]
     ++ (if truthy sessionId then [''resume'' \<mapsto> Str (the sessionId)] else Map.empty)
     ++ [''allowedTools'' \<mapsto> Str_array safeAllowedTools]
     ++ (if truthy workingDirectory then [''cwd'' \<mapsto> Str (the workingDirectory)] else Map.empty)
     ++ (if truthy permissionMode then [''permissionMode'' \<mapsto> Str (the permissionMode)]
         else Map.empty)"

text \<open>Lines 97 to 101: one leading \<^verbatim>\<open>/\<close> is removed.\<close>

definition process_message :: "string \<Rightarrow> string" where
  "process_message message =
     (let processedMessage = message in
      if startsWith message ''/'' then drop 1 message else processedMessage)"

text \<open>
  The \<^verbatim>\<open>try\<close> block, lines 95 to 141. The new controller of line 104 is the argument
  \<open>abortController\<close>. Every message of the engine is yielded as a \<open>Claude_json\<close>
  event; when the engine ends, \<open>Done\<close> is yielded; when it throws, the block
  completes with the thrown value.
\<close>

definition try_block ::
  "string \<Rightarrow> loader_state \<Rightarrow> 'm engine \<Rightarrow> AbortController \<Rightarrow>
   string \<Rightarrow> string \<Rightarrow> (string \<rightharpoonup> AbortController) \<Rightarrow> string \<Rightarrow> string option \<Rightarrow>
   string list option \<Rightarrow> string option \<Rightarrow> string option \<Rightarrow> completion \<times> 'm turn_state" where
  "try_block DEFAULT_RULES rules query abortController
       message requestId requestAbortControllers cliPath sessionId
       allowedTools workingDirectory permissionMode =
     (let processedMessage = process_message message;
          controllers = requestAbortControllers(requestId \<mapsto> abortController);
          safeAllowedTools = getAllowedTools allowedTools;
          messageWithRules = prepareMessageWithRules DEFAULT_RULES rules processedMessage sessionId;
          call = \<lparr>prompt = messageWithRules,
                  options = query_options abortController cliPath sessionId safeAllowedTools
                              workingDirectory permissionMode\<rparr>
      in case query call of
           Ends sdkMessages \<Rightarrow>
             (Normal, \<lparr>registry = controllers,
                       yielded = map Claude_json sdkMessages @ [Done],
                       engine_calls = [call]\<rparr>)
         | Throws sdkMessages error \<Rightarrow>
             (Throw error, \<lparr>registry = controllers,
                            yielded = map Claude_json sdkMessages,
                            engine_calls = [call]\<rparr>))"

text \<open>
  One fallible step followed by the rest of the block: a step that throws ends the block
  with the thrown value.
\<close>

definition then_do :: "thrown + 'a \<Rightarrow> ('a \<Rightarrow> thrown + 'b) \<Rightarrow> thrown + 'b" where
  "then_do step rest = (case step of Inl t \<Rightarrow> Inl t | Inr v \<Rightarrow> rest v)"

text \<open>
  \<^verbatim>\<open>errorMessage.includes("aborted by user")\<close> on the value that \<^verbatim>\<open>errorMessage\<close>
  holds, and the truthiness of that value for \<^verbatim>\<open>errorMessage || ...\<close>.
\<close>

fun call_includes_marker :: "prop_value \<Rightarrow> thrown + bool" where
  "call_includes_marker (Text s) = Inr (includes_str s ''aborted by user'')"
| "call_includes_marker (Non_text outcome truthy_value) = outcome"

fun is_truthy :: "prop_value \<Rightarrow> bool" where
  "is_truthy (Text s) = (s \<noteq> '''')"
| "is_truthy (Non_text outcome truthy_value) = truthy_value"

text \<open>
  The \<^verbatim>\<open>catch\<close> block, lines 142 to 161, up to its \<^verbatim>\<open>yield\<close>: the event it is about
  to yield, or the value it throws itself.
  \<^item> Lines 144 to 146: \<^verbatim>\<open>error instanceof Error\<close> decides whether the message and the
    name are read or taken as the empty string.
  \<^item> Line 149: \<^verbatim>\<open>errorName === "AbortError" || errorMessage.includes(...)\<close>; the call
    is not made when the name already decides.
  \<^item> Line 159: \<^verbatim>\<open>errorMessage || String(error)\<close> is the message when it is truthy, and
    the conversion is made only otherwise.
  Logging is taken to have no effect.
\<close>

definition catch_event :: "thrown \<Rightarrow> thrown + 'm StreamResponse" where
  "catch_event error =
     then_do (instanceof_Error error) (\<lambda>isError.
     then_do (if isError then get_message error else Inr (Text '''')) (\<lambda>errorMessage.
     then_do (if isError then get_name error else Inr (Text '''')) (\<lambda>errorName.
     then_do (if errorName = Text ''AbortError'' then Inr True
              else call_includes_marker errorMessage) (\<lambda>isAbort.
     if isAbort then Inr Aborted
     else then_do (if is_truthy errorMessage then Inr errorMessage
                   else then_do (String_conversion error) (\<lambda>text. Inr (Text text)))
            (\<lambda>field. Inr (Error_event field))))))"

text \<open>
  The \<^verbatim>\<open>catch\<close> block: it yields its event and completes normally, or completes with
  the value it threw before yielding.
\<close>

definition catch_block :: "thrown \<Rightarrow> 'm turn_state \<Rightarrow> completion \<times> 'm turn_state" where
  "catch_block error st =
     (case catch_event error of
        Inr event \<Rightarrow> (Normal, st\<lparr>yielded := yielded st @ [event]\<rparr>)
      | Inl t \<Rightarrow> (Throw t, st))"

text \<open>The \<^verbatim>\<open>finally\<close> block, lines 162 to 167.\<close>

definition finally_block :: "string \<Rightarrow> 'm turn_state \<Rightarrow> 'm turn_state" where
  "finally_block requestId st =
     (if requestId \<in> dom (registry st)
      then st\<lparr>registry := (registry st)(requestId := None)\<rparr>
      else st)"

text \<open>The \<^verbatim>\<open>try\<close> block followed by the \<^verbatim>\<open>catch\<close> block when it threw.\<close>

definition try_catch ::
  "string \<Rightarrow> loader_state \<Rightarrow> 'm engine \<Rightarrow> AbortController \<Rightarrow>
   string \<Rightarrow> string \<Rightarrow> (string \<rightharpoonup> AbortController) \<Rightarrow> string \<Rightarrow> string option \<Rightarrow>
   string list option \<Rightarrow> string option \<Rightarrow> string option \<Rightarrow> completion \<times> 'm turn_state" where
  "try_catch DEFAULT_RULES rules query abortController
       message requestId requestAbortControllers cliPath sessionId
       allowedTools workingDirectory permissionMode =
     (case try_block DEFAULT_RULES rules query abortController
             message requestId requestAbortControllers cliPath sessionId
             allowedTools workingDirectory permissionMode of
        (Normal, st) \<Rightarrow> (Normal, st)
      | (Throw error, st) \<Rightarrow> catch_block error st)"

text \<open>
  The generator run to its end: the \<^verbatim>\<open>finally\<close> block runs after the other two and
  keeps their completion.
\<close>

definition executeClaudeCommand ::
  "string \<Rightarrow> loader_state \<Rightarrow> 'm engine \<Rightarrow> AbortController \<Rightarrow>
   string \<Rightarrow> string \<Rightarrow> (string \<rightharpoonup> AbortController) \<Rightarrow> string \<Rightarrow> string option \<Rightarrow>
   string list option \<Rightarrow> string option \<Rightarrow> string option \<Rightarrow> completion \<times> 'm turn_state" where
  "executeClaudeCommand DEFAULT_RULES rules query abortController
       message requestId requestAbortControllers cliPath sessionId
       allowedTools workingDirectory permissionMode =
     (case try_catch DEFAULT_RULES rules query abortController
             message requestId requestAbortControllers cliPath sessionId
             allowedTools workingDirectory permissionMode of
        (c, st) \<Rightarrow> (c, finally_block requestId st))"

text \<open>An engine that answers every call with the same outcome.\<close>

definition engine_always :: "'m engine_outcome \<Rightarrow> 'm engine" where
  "engine_always outcome call = outcome"

text \<open>The shared map with no entry.\<close>

definition no_controllers :: "string \<rightharpoonup> AbortController" where
  "no_controllers = Map.empty"

text \<open>A file system operation that answers every path alike.\<close>

definition file_system_always :: "'a \<Rightarrow> string \<Rightarrow> 'a" where
  "file_system_always answer path = answer"

text \<open>
  Thrown values to run the model on. \<open>Error_object name message\<close> is an ordinary error
  object, as \<^verbatim>\<open>new Error(message)\<close> or a subclass of that name builds it: its
  conversion is the inherited \<^verbatim>\<open>Error.prototype.toString\<close>, which gives the message when
  the name is empty, the name when the message is empty, and \<^verbatim>\<open>name: message\<close>
  otherwise.
\<close>

definition Error_object :: "string \<Rightarrow> string \<Rightarrow> thrown" where
  "Error_object name message =
     Thrown (Inr True) (Inr (Text message)) (Inr (Text name))
       (Inr (if name = '''' then message
             else if message = '''' then name
             else name @ '': '' @ message))"

text \<open>The value \<^verbatim>\<open>undefined\<close> as a property value: a method call on it throws.\<close>

definition undefined_value :: prop_value where
  "undefined_value =
     Non_text (Inl (Error_object ''TypeError'' ''Cannot read properties of undefined'')) False"

text \<open>
  The object \<^verbatim>\<open>Object.create(null)\<close>: not an instance of \<^verbatim>\<open>Error\<close>, no properties,
  and no conversion to a string.
\<close>

definition null_prototype_object :: thrown where
  "null_prototype_object =
     Thrown (Inr False) (Inr undefined_value) (Inr undefined_value)
       (Inl (Error_object ''TypeError'' ''Cannot convert object to primitive value''))"

subsection \<open>Failures the \<^verbatim>\<open>catch\<close> block can classify\<close>

text \<open>
  A thrown value is ordinary when it is not an instance of \<^verbatim>\<open>Error\<close>, or is one whose
  message is a string and whose name can be read, and when it has a conversion to a
  string.
\<close>

definition ordinary_failure :: "thrown \<Rightarrow> bool" where
  "ordinary_failure e \<longleftrightarrow>
     (instanceof_Error e = Inr False \<or>
      (instanceof_Error e = Inr True \<and>
       (\<exists>m. get_message e = Inr (Text m)) \<and> (\<exists>n. get_name e = Inr n))) \<and>
     (\<exists>s. String_conversion e = Inr s)"

section \<open>Properties of the tool-permission filter\<close>

lemma startsWith_iff: "startsWith s p \<longleftrightarrow> (\<exists>rest. s = p @ rest)"
  by (simp add: startsWith_def prefix_def)

lemma is_blocked_iff_spec: "is_blocked t \<longleftrightarrow> spec_blocklisted t"
  by (simp add: is_blocked_def spec_blocklisted_def BLOCKED_WRITE_TOOLS_def startsWith_iff)

lemma first_occurrences_Nil: "first_occurrences [] = []"
  by (simp add: first_occurrences_def)

lemma remdups_snoc:
  "remdups (ys @ [x]) = filter (\<lambda>y. y \<noteq> x) (remdups ys) @ [x]"
  by (induction ys) auto

lemma first_occurrences_Cons:
  "first_occurrences (x # xs) = x # filter (\<lambda>y. y \<noteq> x) (first_occurrences xs)"
  by (simp add: first_occurrences_def remdups_snoc rev_filter)

lemma set_first_occurrences: "set (first_occurrences xs) = set xs"
  by (simp add: first_occurrences_def)

lemma distinct_first_occurrences: "distinct (first_occurrences xs)"
  by (simp add: first_occurrences_def)

lemma filter_first_occurrences:
  "filter P (first_occurrences xs) = first_occurrences (filter P xs)"
  by (simp add: first_occurrences_def rev_filter remdups_filter)

text \<open>
  The loop appends to \<open>tools\<close> the first occurrences of the entries that are neither
  blocked nor in \<open>tools\<close> already.
\<close>

lemma add_tools_eq:
  "add_tools tools approved =
     tools @ first_occurrences (filter (\<lambda>t. \<not> is_blocked t \<and> t \<notin> set tools) approved)"
proof (induction approved arbitrary: tools)
  case Nil
  show ?case by (simp add: first_occurrences_Nil)
next
  case (Cons tool rest)
  show ?case
  proof (cases "is_blocked tool \<or> tool \<in> set tools")
    case True
    then show ?thesis using Cons.IH [of tools] by auto
  next
    case False
    have "filter (\<lambda>y. y \<noteq> tool)
            (first_occurrences (filter (\<lambda>t. \<not> is_blocked t \<and> t \<notin> set tools) rest)) =
          first_occurrences (filter (\<lambda>t. \<not> is_blocked t \<and> t \<notin> set (tools @ [tool])) rest)"
      by (simp add: filter_first_occurrences conj_commute conj_left_commute)
    with False show ?thesis
      using Cons.IH [of "tools @ [tool]"]
      by (simp add: first_occurrences_Cons)
  qed
qed

lemma getAllowedTools_eq_spec:
  "getAllowedTools (Some approved) = spec_allowed_tools approved"
  by (simp add: getAllowedTools_def spec_allowed_tools_def add_tools_eq READ_ONLY_TOOLS_def
      is_blocked_iff_spec)

lemma baseline_not_blocked: "t \<in> set READ_ONLY_TOOLS \<Longrightarrow> \<not> is_blocked t"
  by (auto simp: READ_ONLY_TOOLS_def is_blocked_def BLOCKED_WRITE_TOOLS_def startsWith_def)

lemma set_getAllowedTools:
  "set (getAllowedTools (Some approved)) =
     set READ_ONLY_TOOLS \<union> {t \<in> set approved. \<not> is_blocked t}"
  by (auto simp: getAllowedTools_def add_tools_eq set_first_occurrences)

lemma distinct_getAllowedTools: "distinct (getAllowedTools frontendAllowedTools)"
proof (cases frontendAllowedTools)
  case None
  then show ?thesis by (simp add: getAllowedTools_def READ_ONLY_TOOLS_def)
next
  case (Some approved)
  have "distinct READ_ONLY_TOOLS" by (simp add: READ_ONLY_TOOLS_def)
  with Some show ?thesis
    by (auto simp: getAllowedTools_def add_tools_eq distinct_first_occurrences
        set_first_occurrences)
qed

subsection \<open>Claim C1\<close>

text \<open>
  C1. For every optional list of user-approved tool names, \<open>getAllowedTools\<close> returns
  the read-only baseline \<open>Read, Grep, Glob, LSP, Task\<close> in that order, followed by the
  user-approved entries in their original order, skipping every entry that equals a
  blocklist name (\<open>Write, Edit, Delete, Move, Bash\<close>) or starts with one followed by
  an opening parenthesis, and skipping every entry already in the result. The result
  contains the baseline, contains no blocklisted entry and has no duplicates, and for
  \<open>Bash, WebSearch\<close> it is the baseline followed by \<open>WebSearch\<close>.
\<close>

theorem getAllowedTools_baseline_then_approved:
  "getAllowedTools None = [''Read'', ''Grep'', ''Glob'', ''LSP'', ''Task''] \<and>
   getAllowedTools (Some approved) = spec_allowed_tools approved \<and>
   set [''Read'', ''Grep'', ''Glob'', ''LSP'', ''Task'']
     \<subseteq> set (getAllowedTools frontendAllowedTools) \<and>
   (\<forall>t \<in> set (getAllowedTools frontendAllowedTools). \<not> spec_blocklisted t) \<and>
   distinct (getAllowedTools frontendAllowedTools) \<and>
   getAllowedTools (Some [''Bash'', ''WebSearch'']) =
     [''Read'', ''Grep'', ''Glob'', ''LSP'', ''Task'', ''WebSearch'']"
proof -
  have none: "getAllowedTools None = [''Read'', ''Grep'', ''Glob'', ''LSP'', ''Task'']"
    by (simp add: getAllowedTools_def READ_ONLY_TOOLS_def)
  have sup: "set [''Read'', ''Grep'', ''Glob'', ''LSP'', ''Task'']
               \<subseteq> set (getAllowedTools frontendAllowedTools)"
  proof (cases frontendAllowedTools)
    case None
    then show ?thesis using none by simp
  next
    case (Some approved')
    then show ?thesis
      using set_getAllowedTools [of approved'] by (simp add: READ_ONLY_TOOLS_def)
  qed
  have clean: "\<forall>t \<in> set (getAllowedTools frontendAllowedTools). \<not> spec_blocklisted t"
  proof (cases frontendAllowedTools)
    case None
    then show ?thesis
      using baseline_not_blocked
      by (simp add: getAllowedTools_def is_blocked_iff_spec [symmetric])
  next
    case (Some approved')
    then show ?thesis
      using baseline_not_blocked
      by (auto simp: set_getAllowedTools is_blocked_iff_spec [symmetric])
  qed
  have ex: "getAllowedTools (Some [''Bash'', ''WebSearch'']) =
     [''Read'', ''Grep'', ''Glob'', ''LSP'', ''Task'', ''WebSearch'']"
    by (simp add: getAllowedTools_def READ_ONLY_TOOLS_def is_blocked_def
        BLOCKED_WRITE_TOOLS_def startsWith_def)
  show ?thesis
    using none sup clean ex getAllowedTools_eq_spec [of approved]
      distinct_getAllowedTools [of frontendAllowedTools]
    by blast
qed

theorem getAllowedTools_baseline_then_approved_witness:
  "getAllowedTools (Some [''Bash'', ''WebSearch'', ''Edit(a.txt)'', ''Read'', ''WebSearch'']) =
     [''Read'', ''Grep'', ''Glob'', ''LSP'', ''Task'', ''WebSearch'']
   \<and> ''WebSearch'' \<in>
       set (getAllowedTools (Some [''Bash'', ''WebSearch'', ''Edit(a.txt)'', ''Read'', ''WebSearch'']))
   \<and> \<not> spec_blocklisted ''WebSearch''
   \<and> spec_allowed_tools [''Bash'', ''WebSearch'', ''Edit(a.txt)'', ''Read'', ''WebSearch''] =
       [''Read'', ''Grep'', ''Glob'', ''LSP'', ''Task'', ''WebSearch'']"
proof -
  have run: "getAllowedTools (Some [''Bash'', ''WebSearch'', ''Edit(a.txt)'', ''Read'', ''WebSearch'']) =
     [''Read'', ''Grep'', ''Glob'', ''LSP'', ''Task'', ''WebSearch'']"
    by (simp add: getAllowedTools_def READ_ONLY_TOOLS_def is_blocked_def
        BLOCKED_WRITE_TOOLS_def startsWith_def)
  have m: "''WebSearch'' \<in>
       set (getAllowedTools (Some [''Bash'', ''WebSearch'', ''Edit(a.txt)'', ''Read'', ''WebSearch'']))"
    by (simp add: run)
  show ?thesis
    using run m getAllowedTools_baseline_then_approved
      [of "[''Bash'', ''WebSearch'', ''Edit(a.txt)'', ''Read'', ''WebSearch'']"
          "Some [''Bash'', ''WebSearch'', ''Edit(a.txt)'', ''Read'', ''WebSearch'']"]
    by metis
qed

subsection \<open>Claim C6\<close>

text \<open>
  C6 as stated says that every entry with a blocklisted name as a prefix is excluded, so
  every entry that begins with \<^verbatim>\<open>Write\<close>. The entry \<^verbatim>\<open>WriteFile\<close> refutes it: it
  begins with \<^verbatim>\<open>Write\<close> and is in the result.
\<close>

theorem prefix_blocklist_counterexample:
  "prefix ''Write'' ''WriteFile'' \<and>
   ''WriteFile'' \<in> set (getAllowedTools (Some [''WriteFile''])) \<and>
   getAllowedTools (Some [''WriteFile'']) =
     [''Read'', ''Grep'', ''Glob'', ''LSP'', ''Task'', ''WriteFile'']"
  by (simp add: getAllowedTools_def READ_ONLY_TOOLS_def is_blocked_def
        BLOCKED_WRITE_TOOLS_def startsWith_def)

text \<open>
  C6, amended. An entry is excluded from the result of \<open>getAllowedTools\<close> when it
  equals a blocklisted name or begins with a blocklisted name followed by an opening
  parenthesis, and a user-approved entry that does neither is in the result.
\<close>

theorem blocklist_exact_or_parenthesis:
  "(name \<in> set [''Write'', ''Edit'', ''Delete'', ''Move'', ''Bash''] \<and>
      (entry = name \<or> prefix (name @ ''('') entry)
      \<longrightarrow> entry \<notin> set (getAllowedTools frontendAllowedTools)) \<and>
   (entry \<in> set approved \<and>
      \<not> (\<exists>name' \<in> set [''Write'', ''Edit'', ''Delete'', ''Move'', ''Bash''].
            entry = name' \<or> prefix (name' @ ''('') entry)
      \<longrightarrow> entry \<in> set (getAllowedTools (Some approved)))"
proof -
  have blocked: "is_blocked entry \<longleftrightarrow>
      (\<exists>name' \<in> set [''Write'', ''Edit'', ''Delete'', ''Move'', ''Bash''].
             entry = name' \<or> prefix (name' @ ''('') entry)"
    by (simp add: is_blocked_def BLOCKED_WRITE_TOOLS_def startsWith_def list_ex_iff)
  have out: "entry \<notin> set (getAllowedTools frontendAllowedTools)" if "is_blocked entry"
  proof (cases frontendAllowedTools)
    case None
    with that show ?thesis using baseline_not_blocked by (auto simp: getAllowedTools_def)
  next
    case (Some approved')
    with that show ?thesis using baseline_not_blocked by (auto simp: set_getAllowedTools)
  qed
  have kept: "entry \<in> set (getAllowedTools (Some approved))"
    if "entry \<in> set approved" "\<not> is_blocked entry"
    using that by (simp add: set_getAllowedTools)
  show ?thesis using out kept blocked by blast
qed

theorem blocklist_exact_or_parenthesis_witness:
  "''Write'' \<in> set [''Write'', ''Edit'', ''Delete'', ''Move'', ''Bash''] \<and>
   prefix (''Write'' @ ''('') ''Write(/etc/passwd)'' \<and>
   ''Write(/etc/passwd)'' \<notin>
     set (getAllowedTools (Some [''Write(/etc/passwd)'', ''Bash'', ''WebFetch''])) \<and>
   ''Bash'' \<notin> set (getAllowedTools (Some [''Write(/etc/passwd)'', ''Bash'', ''WebFetch''])) \<and>
   ''WebFetch'' \<in> set [''Write(/etc/passwd)'', ''Bash'', ''WebFetch''] \<and>
   ''WebFetch'' \<in> set (getAllowedTools (Some [''Write(/etc/passwd)'', ''Bash'', ''WebFetch'']))"
  using blocklist_exact_or_parenthesis
    [of "''Write''" "''Write(/etc/passwd)''"
        "Some [''Write(/etc/passwd)'', ''Bash'', ''WebFetch'']"
        "[''Write(/etc/passwd)'', ''Bash'', ''WebFetch'']"]
    blocklist_exact_or_parenthesis
    [of "''Bash''" "''Bash''"
        "Some [''Write(/etc/passwd)'', ''Bash'', ''WebFetch'']"
        "[''Write(/etc/passwd)'', ''Bash'', ''WebFetch'']"]
    blocklist_exact_or_parenthesis
    [of "''Bash''" "''WebFetch''"
        "Some [''Write(/etc/passwd)'', ''Bash'', ''WebFetch'']"
        "[''Write(/etc/passwd)'', ''Bash'', ''WebFetch'']"]
  by simp

section \<open>Properties of the turn executor\<close>

lemma includes_str_iff_sublist: "includes_str s p \<longleftrightarrow> sublist p s"
  by (induction s) (auto simp: sublist_Cons_right)

lemma includes_str_iff: "includes_str s p \<longleftrightarrow> (\<exists>a b. s = a @ p @ b)"
  by (simp add: includes_str_iff_sublist sublist_def)

lemma catch_event_terminal: "catch_event e = Inr event \<Longrightarrow> is_terminal event"
  by (auto simp: catch_event_def then_do_def split: sum.splits if_splits)

lemma try_catch_eq:
  "try_catch D rules query ac message requestId rac cliPath sessionId allowedTools wd pm =
    (case query \<lparr>prompt = prepareMessageWithRules D rules (process_message message) sessionId,
                 options = query_options ac cliPath sessionId (getAllowedTools allowedTools)
                             wd pm\<rparr> of
       Ends msgs \<Rightarrow>
         (Normal,
          \<lparr>registry = rac(requestId \<mapsto> ac),
           yielded = map Claude_json msgs @ [Done],
           engine_calls =
             [\<lparr>prompt = prepareMessageWithRules D rules (process_message message) sessionId,
               options = query_options ac cliPath sessionId (getAllowedTools allowedTools)
                           wd pm\<rparr>]\<rparr>)
     | Throws msgs e \<Rightarrow>
         (case catch_event e of
            Inr event \<Rightarrow>
              (Normal,
               \<lparr>registry = rac(requestId \<mapsto> ac),
                yielded = map Claude_json msgs @ [event],
                engine_calls =
                  [\<lparr>prompt = prepareMessageWithRules D rules (process_message message) sessionId,
                    options = query_options ac cliPath sessionId (getAllowedTools allowedTools)
                                wd pm\<rparr>]\<rparr>)
          | Inl t \<Rightarrow>
              (Throw t,
               \<lparr>registry = rac(requestId \<mapsto> ac),
                yielded = map Claude_json msgs,
                engine_calls =
                  [\<lparr>prompt = prepareMessageWithRules D rules (process_message message) sessionId,
                    options = query_options ac cliPath sessionId (getAllowedTools allowedTools)
                                wd pm\<rparr>]\<rparr>)))"
  by (simp add: try_catch_def try_block_def catch_block_def Let_def
      split: engine_outcome.split sum.split)

lemma finally_block_registered:
  "registry st requestId = Some ac \<Longrightarrow>
   finally_block requestId st = st\<lparr>registry := (registry st)(requestId := None)\<rparr>"
  by (simp add: finally_block_def dom_def)

lemma executeClaudeCommand_eq:
  "executeClaudeCommand D rules query ac message requestId rac cliPath sessionId allowedTools wd pm =
    (case query \<lparr>prompt = prepareMessageWithRules D rules (process_message message) sessionId,
                 options = query_options ac cliPath sessionId (getAllowedTools allowedTools)
                             wd pm\<rparr> of
       Ends msgs \<Rightarrow>
         (Normal,
          \<lparr>registry = rac(requestId := None),
           yielded = map Claude_json msgs @ [Done],
           engine_calls =
             [\<lparr>prompt = prepareMessageWithRules D rules (process_message message) sessionId,
               options = query_options ac cliPath sessionId (getAllowedTools allowedTools)
                           wd pm\<rparr>]\<rparr>)
     | Throws msgs e \<Rightarrow>
         (case catch_event e of
            Inr event \<Rightarrow>
              (Normal,
               \<lparr>registry = rac(requestId := None),
                yielded = map Claude_json msgs @ [event],
                engine_calls =
                  [\<lparr>prompt = prepareMessageWithRules D rules (process_message message) sessionId,
                    options = query_options ac cliPath sessionId (getAllowedTools allowedTools)
                                wd pm\<rparr>]\<rparr>)
          | Inl t \<Rightarrow>
              (Throw t,
               \<lparr>registry = rac(requestId := None),
                yielded = map Claude_json msgs,
                engine_calls =
                  [\<lparr>prompt = prepareMessageWithRules D rules (process_message message) sessionId,
                    options = query_options ac cliPath sessionId (getAllowedTools allowedTools)
                                wd pm\<rparr>]\<rparr>)))"
  by (simp add: executeClaudeCommand_def try_catch_eq finally_block_registered
      split: engine_outcome.split sum.split)

lemma engine_calls_executeClaudeCommand:
  "engine_calls (snd (executeClaudeCommand D rules query ac message requestId rac cliPath
                        sessionId allowedTools wd pm)) =
     [\<lparr>prompt = prepareMessageWithRules D rules (process_message message) sessionId,
       options = query_options ac cliPath sessionId (getAllowedTools allowedTools) wd pm\<rparr>]"
  by (simp add: executeClaudeCommand_eq split: engine_outcome.split sum.split)

lemma no_terminal_in_messages: "filter is_terminal (map Claude_json msgs) = []"
  by (induction msgs) auto

lemma terminal_last_shape:
  assumes "is_terminal t"
  shows "map Claude_json msgs @ [t] \<noteq> [] \<and>
         is_terminal (last (map Claude_json msgs @ [t])) \<and>
         length (filter is_terminal (map Claude_json msgs @ [t])) = 1 \<and>
         (\<forall>e \<in> set (butlast (map Claude_json msgs @ [t])). \<exists>m. e = Claude_json m)"
  using assms by (auto simp: no_terminal_in_messages)

lemma catch_event_ordinary:
  "ordinary_failure e \<Longrightarrow> \<exists>event. catch_event e = Inr (event :: 'm StreamResponse)"
  by (auto simp: ordinary_failure_def catch_event_def then_do_def split: sum.splits if_splits)

lemma catch_event_AbortError:
  "instanceof_Error e = Inr True \<Longrightarrow> get_message e = Inr m \<Longrightarrow>
     get_name e = Inr (Text ''AbortError'') \<Longrightarrow> catch_event e = Inr Aborted"
  by (simp add: catch_event_def then_do_def)


lemma catch_event_message:
  assumes "instanceof_Error e = Inr True" "get_message e = Inr (Text msg)" "get_name e = Inr n"
    and "n \<noteq> Text ''AbortError''" "\<not> (\<exists>a b. msg = a @ ''aborted by user'' @ b)" "msg \<noteq> []"
  shows "catch_event e = Inr (Error_event (Text msg))"
proof -
  have "\<not> includes_str msg ''aborted by user''"
    using assms(5) by (simp only: includes_str_iff not_False_eq_True)
  with assms(1-4,6) show ?thesis
    by (simp add: catch_event_def then_do_def)
qed


lemma catch_event_not_Error:
  assumes "instanceof_Error e = Inr False"
  shows "catch_event e =
           (case String_conversion e of Inr s \<Rightarrow> Inr (Error_event (Text s)) | Inl t \<Rightarrow> Inl t)"
  using assms by (simp add: catch_event_def then_do_def split: sum.split)

lemma process_message_slash: "process_message (CHR ''/'' # rest) = rest"
  by (simp add: process_message_def startsWith_def)

lemma process_message_other: "\<not> startsWith message ''/'' \<Longrightarrow> process_message message = message"
  by (simp add: process_message_def)

lemma query_options_optional:
  "query_options ac cliPath sessionId tools wd pm ''resume'' =
     (case sessionId of None \<Rightarrow> None | Some s \<Rightarrow> if s = '''' then None else Some (Str s))"
  "query_options ac cliPath sessionId tools wd pm ''cwd'' =
     (case wd of None \<Rightarrow> None | Some d \<Rightarrow> if d = '''' then None else Some (Str d))"
  "query_options ac cliPath sessionId tools wd pm ''permissionMode'' =
     (case pm of None \<Rightarrow> None | Some p \<Rightarrow> if p = '''' then None else Some (Str p))"
  by (simp_all add: query_options_def map_add_def split: option.split)

lemma query_options_no_placeholder:
  "query_options ac cliPath sessionId tools wd pm k \<noteq> Some Undefined"
  "query_options ac cliPath sessionId tools wd pm k \<noteq> Some Null"
  by (auto simp: query_options_def map_add_def split: option.splits if_splits)

lemma dom_query_options:
  "dom (query_options ac cliPath sessionId tools wd pm) =
     {''abortController'', ''executable'', ''executableArgs'', ''pathToClaudeCodeExecutable'',
      ''allowedTools''}
     \<union> (if truthy sessionId then {''resume''} else {})
     \<union> (if truthy wd then {''cwd''} else {})
     \<union> (if truthy pm then {''permissionMode''} else {})"
  by (auto simp: query_options_def split: if_splits)

lemma separator_not_empty: "rules @ rules_separator @ message \<noteq> message"
proof
  assume "rules @ rules_separator @ message = message"
  then have "length (rules @ rules_separator @ message) = length message" by simp
  then show False by (simp add: rules_separator_def)
qed

subsection \<open>Claim C2\<close>

text \<open>
  C2 as stated says that every run yields exactly one terminal event, whatever failure
  the engine raises. A thrown value without a conversion to a string refutes it: the
  \<^verbatim>\<open>catch\<close> block throws at \<^verbatim>\<open>String(error)\<close> before its \<^verbatim>\<open>yield\<close>, and the
  generator rejects after the \<open>Claude_json\<close> events with no terminal event.
\<close>

theorem terminal_event_missing_counterexample:
  "fst (executeClaudeCommand ''R'' initial_loader_state
      (engine_always (Throws [1::nat] null_prototype_object))
      0 ''hi'' ''r1'' no_controllers ''/cli'' None None None None) =
     Throw (Error_object ''TypeError'' ''Cannot convert object to primitive value'') \<and>
   yielded (snd (executeClaudeCommand ''R'' initial_loader_state
      (engine_always (Throws [1::nat] null_prototype_object))
      0 ''hi'' ''r1'' no_controllers ''/cli'' None None None None)) = [Claude_json 1] \<and>
   filter is_terminal (yielded (snd (executeClaudeCommand ''R'' initial_loader_state
      (engine_always (Throws [1::nat] null_prototype_object))
      0 ''hi'' ''r1'' no_controllers ''/cli'' None None None None))) = []"
  by (simp add: executeClaudeCommand_eq engine_always_def catch_event_not_Error
      null_prototype_object_def)

text \<open>
  C2, amended. Every run of \<open>executeClaudeCommand\<close> yields at most one terminal event
  (\<open>Done\<close>, \<open>Aborted\<close> or \<open>Error_event\<close>), and every event before the last is a
  \<open>Claude_json\<close> event. A run that completes normally yields exactly one terminal
  event, as its last event. The run completes normally when the engine's sequence ends,
  then with \<open>Done\<close>, and when the engine throws an ordinary failure: a value that is
  not an instance of \<^verbatim>\<open>Error\<close> or is one with a string message and a readable name,
  and that has a conversion to a string.
\<close>

theorem at_most_one_terminal_event_last:
  "let run = executeClaudeCommand D rules query ac message requestId rac cliPath sessionId
               allowedTools wd pm;
       events = yielded (snd run)
   in length (filter is_terminal events) \<le> 1 \<and>
      (\<forall>ev \<in> set (butlast events). \<exists>m. ev = Claude_json m) \<and>
      (fst run = Normal \<longrightarrow>
         events \<noteq> [] \<and> is_terminal (last events) \<and> length (filter is_terminal events) = 1) \<and>
      (\<forall>msgs. query \<lparr>prompt = prepareMessageWithRules D rules (process_message message) sessionId,
                      options = query_options ac cliPath sessionId (getAllowedTools allowedTools)
                                  wd pm\<rparr> = Ends msgs
         \<longrightarrow> fst run = Normal \<and> events = map Claude_json msgs @ [Done]) \<and>
      (\<forall>msgs e. query \<lparr>prompt = prepareMessageWithRules D rules (process_message message) sessionId,
                        options = query_options ac cliPath sessionId (getAllowedTools allowedTools)
                                    wd pm\<rparr> = Throws msgs e \<and> ordinary_failure e
         \<longrightarrow> fst run = Normal \<and> butlast events = map Claude_json msgs)"
proof (cases "query \<lparr>prompt = prepareMessageWithRules D rules (process_message message) sessionId,
                  options = query_options ac cliPath sessionId (getAllowedTools allowedTools) wd pm\<rparr>")
  case (Ends msgs)
  have "is_terminal (Done :: 'a StreamResponse)" by simp
  from terminal_last_shape [OF this, of msgs] show ?thesis
    by (simp add: Let_def executeClaudeCommand_eq Ends)
next
  case (Throws msgs e)
  show ?thesis
  proof (cases "catch_event e :: thrown + 'a StreamResponse")
    case (Inl t)
    have "butlast (map Claude_json msgs) = map Claude_json (butlast msgs)"
      by (simp add: map_butlast)
    moreover have "\<not> ordinary_failure e"
      using catch_event_ordinary [of e, where ?'m = 'a] Inl by auto
    ultimately show ?thesis
      by (auto simp: Let_def executeClaudeCommand_eq Throws Inl no_terminal_in_messages)
  next
    case (Inr event)
    from terminal_last_shape [OF catch_event_terminal [OF Inr], of msgs] show ?thesis
      by (simp add: Let_def executeClaudeCommand_eq Throws Inr)
  qed
qed

theorem at_most_one_terminal_event_last_witness:
  "ordinary_failure (Error_object ''AbortError'' ''stop'') \<and>
   executeClaudeCommand ''R'' initial_loader_state
      (engine_always (Throws [1::nat, 2] (Error_object ''AbortError'' ''stop'')))
      0 ''hi'' ''r1'' no_controllers ''/cli'' None None None None =
     (Normal, \<lparr>registry = no_controllers(''r1'' := None),
               yielded = [Claude_json 1, Claude_json 2, Aborted],
               engine_calls =
                 [\<lparr>prompt = ''R'' @ rules_separator @ ''hi'',
                   options = query_options 0 ''/cli'' None
                               [''Read'', ''Grep'', ''Glob'', ''LSP'', ''Task''] None None\<rparr>]\<rparr>) \<and>
   Claude_json (1::nat) \<in> set (butlast [Claude_json 1, Claude_json 2, Aborted]) \<and>
   is_terminal (last (yielded (snd (executeClaudeCommand ''R'' initial_loader_state
      (engine_always (Throws [1::nat, 2] (Error_object ''AbortError'' ''stop'')))
      0 ''hi'' ''r1'' no_controllers ''/cli'' None None None None)))) \<and>
   length (filter is_terminal (yielded (snd (executeClaudeCommand ''R'' initial_loader_state
      (engine_always (Throws [1::nat, 2] (Error_object ''AbortError'' ''stop'')))
      0 ''hi'' ''r1'' no_controllers ''/cli'' None None None None)))) = 1"
proof -
  have ord: "ordinary_failure (Error_object ''AbortError'' ''stop'')"
    by (simp add: ordinary_failure_def Error_object_def)
  have run: "executeClaudeCommand ''R'' initial_loader_state
      (engine_always (Throws [1::nat, 2] (Error_object ''AbortError'' ''stop'')))
      0 ''hi'' ''r1'' no_controllers ''/cli'' None None None None =
     (Normal, \<lparr>registry = no_controllers(''r1'' := None),
               yielded = [Claude_json 1, Claude_json 2, Aborted],
               engine_calls =
                 [\<lparr>prompt = ''R'' @ rules_separator @ ''hi'',
                   options = query_options 0 ''/cli'' None
                               [''Read'', ''Grep'', ''Glob'', ''LSP'', ''Task''] None None\<rparr>]\<rparr>)"
    by (simp add: executeClaudeCommand_eq engine_always_def Error_object_def
        catch_event_AbortError prepareMessageWithRules_def getCachedRules_def
        initial_loader_state_def process_message_def startsWith_def getAllowedTools_def
        READ_ONLY_TOOLS_def)
  have m: "Claude_json (1::nat) \<in> set (butlast [Claude_json 1, Claude_json 2, Aborted])"
    by simp
  have fstn: "fst (executeClaudeCommand ''R'' initial_loader_state
      (engine_always (Throws [1::nat, 2] (Error_object ''AbortError'' ''stop'')))
      0 ''hi'' ''r1'' no_controllers ''/cli'' None None None None) = Normal"
    by (simp only: run fst_conv)
  show ?thesis
    using ord run m fstn at_most_one_terminal_event_last [of "''R''" initial_loader_state
      "engine_always (Throws [1::nat, 2] (Error_object ''AbortError'' ''stop''))"
      0 "''hi''" "''r1''" no_controllers "''/cli''" None None None None]
    unfolding Let_def by metis
qed

subsection \<open>Claim C3\<close>




subsection \<open>Claim C4\<close>

text \<open>
  C4 as stated says that for every request with a \<open>sessionId\<close> the prompt is the
  message itself. A request whose \<open>sessionId\<close> is the empty string refutes it: the
  rules are prepended.
\<close>

theorem prompt_with_empty_sessionId_counterexample:
  "map prompt (engine_calls (snd (executeClaudeCommand ''RULES'' initial_loader_state
      (engine_always (Ends [1::nat]))
      0 ''hello'' ''r1'' no_controllers ''/cli'' (Some '''') None None None))) =
     [''RULES'' @ [CHR 0x0A, CHR 0x0A] @ ''---'' @ [CHR 0x0A] @ ''User message: hello''] \<and>
   map prompt (engine_calls (snd (executeClaudeCommand ''RULES'' initial_loader_state
      (engine_always (Ends [1::nat]))
      0 ''hello'' ''r1'' no_controllers ''/cli'' (Some '''') None None None))) \<noteq> [''hello'']"
  by (simp add: engine_calls_executeClaudeCommand prepareMessageWithRules_def getCachedRules_def
      initial_loader_state_def rules_separator_def process_message_def startsWith_def)

text \<open>
  C4, amended. When the \<open>sessionId\<close> is absent or empty, the prompt handed to the
  engine is the cached rules document, then a line break, an empty line, the line
  \<^verbatim>\<open>---\<close> and \<^verbatim>\<open>User message: \<close>, then the message without its leading slash; for
  \<^verbatim>\<open>hello\<close> the prompt ends in \<^verbatim>\<open>User message: hello\<close>. When the \<open>sessionId\<close>
  is a non-empty string, the prompt is the message without its leading slash.
\<close>

theorem prompt_rules_for_new_session:
  "(\<not> truthy sessionId \<longrightarrow>
      map prompt (engine_calls (snd (executeClaudeCommand D rules query ac message requestId rac
                                       cliPath sessionId allowedTools wd pm))) =
        [getCachedRules D rules @ [CHR 0x0A, CHR 0x0A] @ ''---'' @ [CHR 0x0A] @ ''User message: ''
           @ process_message message]) \<and>
   (truthy sessionId \<longrightarrow>
      map prompt (engine_calls (snd (executeClaudeCommand D rules query ac message requestId rac
                                       cliPath sessionId allowedTools wd pm))) =
        [process_message message]) \<and>
   map prompt (engine_calls (snd (executeClaudeCommand D rules query ac ''hello'' requestId rac
                                    cliPath None allowedTools wd pm))) =
     [getCachedRules D rules @ [CHR 0x0A, CHR 0x0A] @ ''---'' @ [CHR 0x0A] @ ''User message: hello'']"
  by (simp add: engine_calls_executeClaudeCommand prepareMessageWithRules_def
      rules_separator_def process_message_def startsWith_def)

theorem prompt_rules_for_new_session_witness:
  "\<not> truthy None \<and> truthy (Some ''s1'') \<and>
   map prompt (engine_calls (snd (executeClaudeCommand ''RULES'' initial_loader_state
      (engine_always (Ends [1::nat]))
      0 ''/status'' ''r1'' no_controllers ''/cli'' None None None None))) =
     [''RULES'' @ [CHR 0x0A, CHR 0x0A] @ ''---'' @ [CHR 0x0A] @ ''User message: status''] \<and>
   map prompt (engine_calls (snd (executeClaudeCommand ''RULES'' initial_loader_state
      (engine_always (Ends [1::nat]))
      0 ''/status'' ''r1'' no_controllers ''/cli'' (Some ''s1'') None None None))) = [''status'']"
  using prompt_rules_for_new_session [of None "''RULES''" initial_loader_state
      "engine_always (Ends [1::nat])" 0 "''/status''" "''r1''" no_controllers "''/cli''"
      None None None]
    prompt_rules_for_new_session [of "Some ''s1''" "''RULES''" initial_loader_state
      "engine_always (Ends [1::nat])" 0 "''/status''" "''r1''" no_controllers "''/cli''"
      None None None]
  by (simp add: getCachedRules_def initial_loader_state_def process_message_def startsWith_def)

subsection \<open>Claim C5\<close>

text \<open>
  C5. On every path of a turn (\<open>Done\<close>, \<open>Aborted\<close>, \<open>Error_event\<close>) the entry of
  the turn's \<open>requestId\<close> is removed from the cancellation registry as the last step:
  after the \<^verbatim>\<open>try\<close> and \<^verbatim>\<open>catch\<close> blocks, which yield every event, the entry is
  still there; the \<^verbatim>\<open>finally\<close> block changes nothing but the registry, and after it
  the registry holds no entry for \<open>requestId\<close> and the entries of the other requests
  as they were.
\<close>

theorem registry_entry_removed:
  "registry (snd (try_catch D rules query ac message requestId rac cliPath sessionId
                    allowedTools wd pm)) requestId = Some ac \<and>
   snd (executeClaudeCommand D rules query ac message requestId rac cliPath sessionId
          allowedTools wd pm) =
     (snd (try_catch D rules query ac message requestId rac cliPath sessionId
             allowedTools wd pm))
       \<lparr>registry := rac(requestId := None)\<rparr> \<and>
   registry (snd (executeClaudeCommand D rules query ac message requestId rac cliPath sessionId
                    allowedTools wd pm)) requestId = None \<and>
   requestId \<notin> dom (registry (snd (executeClaudeCommand D rules query ac message requestId rac
                                       cliPath sessionId allowedTools wd pm))) \<and>
   (\<forall>other. other \<noteq> requestId \<longrightarrow>
      registry (snd (executeClaudeCommand D rules query ac message requestId rac cliPath
                       sessionId allowedTools wd pm)) other = rac other)"
  by (simp add: executeClaudeCommand_eq try_catch_eq split: engine_outcome.split sum.split)

theorem registry_entry_removed_witness:
  "registry (snd (executeClaudeCommand ''R'' initial_loader_state
      (engine_always (Throws [1::nat] (Error_object ''TypeError'' ''fetch failed'')))
      7 ''hi'' ''r1'' (no_controllers(''r0'' \<mapsto> 3)) ''/cli'' None None None None)) ''r1'' = None \<and>
   ''r0'' \<noteq> ''r1'' \<and>
   registry (snd (executeClaudeCommand ''R'' initial_loader_state
      (engine_always (Throws [1::nat] (Error_object ''TypeError'' ''fetch failed'')))
      7 ''hi'' ''r1'' (no_controllers(''r0'' \<mapsto> 3)) ''/cli'' None None None None)) ''r0'' = Some 3 \<and>
   last (yielded (snd (executeClaudeCommand ''R'' initial_loader_state
      (engine_always (Throws [1::nat] (Error_object ''TypeError'' ''fetch failed'')))
      7 ''hi'' ''r1'' (no_controllers(''r0'' \<mapsto> 3)) ''/cli'' None None None None))) =
     Error_event (Text ''fetch failed'')"
proof -
  have "last (yielded (snd (executeClaudeCommand ''R'' initial_loader_state
      (engine_always (Throws [1::nat] (Error_object ''TypeError'' ''fetch failed'')))
      7 ''hi'' ''r1'' (no_controllers(''r0'' \<mapsto> 3)) ''/cli'' None None None None))) =
     Error_event (Text ''fetch failed'')"
    by (simp add: executeClaudeCommand_eq engine_always_def Error_object_def
        catch_event_message [where n = "Text ''TypeError''"] includes_str_iff [symmetric])
  then show ?thesis
    using registry_entry_removed [of "''R''" initial_loader_state
      "engine_always (Throws [1::nat] (Error_object ''TypeError'' ''fetch failed''))"
      7 "''hi''" "''r1''" "no_controllers(''r0'' \<mapsto> 3)" "''/cli''" None None None None]
    by simp
qed

subsection \<open>Claim C7\<close>

text \<open>
  C7. A message that begins with \<^verbatim>\<open>/\<close> loses exactly that one character before it
  reaches the rule injector and the engine, with or without a \<open>sessionId\<close>; any other
  message is passed on unchanged. \<^verbatim>\<open>/status\<close> reaches the engine as \<^verbatim>\<open>status\<close>,
  after the rules when there is no \<open>sessionId\<close>.
\<close>

theorem leading_slash_stripped:
  "map prompt (engine_calls (snd (executeClaudeCommand D rules query ac message requestId rac
                                    cliPath sessionId allowedTools wd pm))) =
     [prepareMessageWithRules D rules (process_message message) sessionId] \<and>
   process_message (CHR ''/'' # rest) = rest \<and>
   (\<not> startsWith message ''/'' \<longrightarrow> process_message message = message) \<and>
   (startsWith message ''/'' \<longleftrightarrow> (\<exists>rest'. message = CHR ''/'' # rest')) \<and>
   map prompt (engine_calls (snd (executeClaudeCommand D rules query ac ''/status'' requestId rac
                                    cliPath None allowedTools wd pm))) =
     [getCachedRules D rules @ rules_separator @ ''status''] \<and>
   (truthy sessionId \<longrightarrow>
      map prompt (engine_calls (snd (executeClaudeCommand D rules query ac ''/status'' requestId
                                       rac cliPath sessionId allowedTools wd pm))) =
        [''status''])"
  by (auto simp: engine_calls_executeClaudeCommand prepareMessageWithRules_def
      process_message_def startsWith_def prefix_def)

theorem leading_slash_stripped_witness:
  "\<not> startsWith ''status/'' ''/'' \<and> process_message ''status/'' = ''status/'' \<and>
   process_message ''//x'' = ''/x'' \<and>
   truthy (Some ''s1'') \<and>
   map prompt (engine_calls (snd (executeClaudeCommand ''RULES'' initial_loader_state
      (engine_always (Ends [1::nat]))
      0 ''/status'' ''r1'' no_controllers ''/cli'' (Some ''s1'') None None None))) = [''status'']"
  using leading_slash_stripped [of "''RULES''" initial_loader_state
      "engine_always (Ends [1::nat])" 0 "''status/''" "''r1''" no_controllers "''/cli''"
      "Some ''s1''" None None None "''/x''"]
  by (simp add: startsWith_def)

subsection \<open>Claim C8\<close>

text \<open>
  C8. The engine is called once, and in the options of that call each of the keys
  \<^verbatim>\<open>resume\<close>, \<^verbatim>\<open>cwd\<close> and \<^verbatim>\<open>permissionMode\<close> is present if and only if the
  matching parameter (\<open>sessionId\<close>, \<open>workingDirectory\<close>, \<open>permissionMode\<close>) is
  truthy, and then carries its value; otherwise the key is missing from the object. No
  key carries \<open>Undefined\<close> or \<open>Null\<close>, and none of the three carries the empty
  string.
\<close>

theorem optional_parameters_present_iff_truthy:
  "length (engine_calls (snd (executeClaudeCommand D rules query ac message requestId rac cliPath
                                sessionId allowedTools workingDirectory permissionMode))) = 1 \<and>
   (\<forall>call \<in> set (engine_calls (snd (executeClaudeCommand D rules query ac message requestId rac
                                       cliPath sessionId allowedTools workingDirectory
                                       permissionMode))).
      (''resume'' \<in> dom (options call) \<longleftrightarrow> truthy sessionId) \<and>
      (''cwd'' \<in> dom (options call) \<longleftrightarrow> truthy workingDirectory) \<and>
      (''permissionMode'' \<in> dom (options call) \<longleftrightarrow> truthy permissionMode) \<and>
      options call ''resume'' =
        (case sessionId of None \<Rightarrow> None | Some s \<Rightarrow> if s = '''' then None else Some (Str s)) \<and>
      options call ''cwd'' =
        (case workingDirectory of None \<Rightarrow> None
         | Some d \<Rightarrow> if d = '''' then None else Some (Str d)) \<and>
      options call ''permissionMode'' =
        (case permissionMode of None \<Rightarrow> None
         | Some p \<Rightarrow> if p = '''' then None else Some (Str p)) \<and>
      (\<forall>k. options call k \<noteq> Some Undefined \<and> options call k \<noteq> Some Null) \<and>
      (\<forall>k \<in> {''resume'', ''cwd'', ''permissionMode''}. options call k \<noteq> Some (Str '''')))"
proof -
  have "truthy x \<longleftrightarrow> (\<exists>s. x = Some s \<and> s \<noteq> '''')" for x
    by (cases x) auto
  then show ?thesis
    by (auto simp: engine_calls_executeClaudeCommand query_options_optional
        query_options_no_placeholder dom_def split: option.splits)
qed

theorem optional_parameters_present_iff_truthy_witness:
  "engine_calls (snd (executeClaudeCommand ''RULES'' initial_loader_state
      (engine_always (Ends [1::nat]))
      0 ''hello'' ''r1'' no_controllers ''/cli'' (Some ''s1'') None (Some '''') None)) =
     [\<lparr>prompt = ''hello'',
       options = query_options 0 ''/cli'' (Some ''s1'')
                   [''Read'', ''Grep'', ''Glob'', ''LSP'', ''Task''] (Some '''') None\<rparr>] \<and>
   options \<lparr>prompt = ''hello'',
       options = query_options 0 ''/cli'' (Some ''s1'')
                   [''Read'', ''Grep'', ''Glob'', ''LSP'', ''Task''] (Some '''') None\<rparr> ''resume''
     = Some (Str ''s1'') \<and>
   ''cwd'' \<notin> dom (options \<lparr>prompt = ''hello'',
       options = query_options 0 ''/cli'' (Some ''s1'')
                   [''Read'', ''Grep'', ''Glob'', ''LSP'', ''Task''] (Some '''') None\<rparr>) \<and>
   ''permissionMode'' \<notin> dom (options \<lparr>prompt = ''hello'',
       options = query_options 0 ''/cli'' (Some ''s1'')
                   [''Read'', ''Grep'', ''Glob'', ''LSP'', ''Task''] (Some '''') None\<rparr>)"
proof -
  have calls: "engine_calls (snd (executeClaudeCommand ''RULES'' initial_loader_state
      (engine_always (Ends [1::nat]))
      0 ''hello'' ''r1'' no_controllers ''/cli'' (Some ''s1'') None (Some '''') None)) =
     [\<lparr>prompt = ''hello'',
       options = query_options 0 ''/cli'' (Some ''s1'')
                   [''Read'', ''Grep'', ''Glob'', ''LSP'', ''Task''] (Some '''') None\<rparr>]"
    by (simp add: engine_calls_executeClaudeCommand prepareMessageWithRules_def
        process_message_def startsWith_def getAllowedTools_def READ_ONLY_TOOLS_def)
  show ?thesis
    using calls optional_parameters_present_iff_truthy [of "''RULES''" initial_loader_state
      "engine_always (Ends [1::nat])" 0 "''hello''" "''r1''" no_controllers "''/cli''"
      "Some ''s1''" None "Some ''''" None]
    by simp
qed

subsection \<open>Claim C10\<close>

text \<open>
  C10. A run with the empty string as \<open>sessionId\<close> is the run without a
  \<open>sessionId\<close>: the rules are prepended and no \<^verbatim>\<open>resume\<close> key is passed. For every
  \<open>sessionId\<close> the two decisions agree: \<^verbatim>\<open>resume\<close> is passed exactly when the
  prompt is the bare message, it is left out exactly when the rules are prepended, and it
  is passed exactly when \<open>sessionId\<close> is a non-empty string.
\<close>

theorem empty_sessionId_is_new_session:
  "executeClaudeCommand D rules query ac message requestId rac cliPath (Some '''')
       allowedTools wd pm =
   executeClaudeCommand D rules query ac message requestId rac cliPath None
       allowedTools wd pm \<and>
   (\<forall>call \<in> set (engine_calls (snd (executeClaudeCommand D rules query ac message requestId rac
                                       cliPath sessionId allowedTools wd pm))).
      (''resume'' \<in> dom (options call) \<longleftrightarrow> (\<exists>s. sessionId = Some s \<and> s \<noteq> '''')) \<and>
      (''resume'' \<in> dom (options call) \<longleftrightarrow> prompt call = process_message message) \<and>
      (''resume'' \<notin> dom (options call) \<longleftrightarrow>
         prompt call = getCachedRules D rules @ rules_separator @ process_message message))"
proof -
  have t: "truthy x \<longleftrightarrow> (\<exists>s. x = Some s \<and> s \<noteq> '''')" for x
    by (cases x) auto
  have same: "executeClaudeCommand D rules query ac message requestId rac cliPath (Some '''')
       allowedTools wd pm =
   executeClaudeCommand D rules query ac message requestId rac cliPath None
       allowedTools wd pm"
  proof -
    have p: "prepareMessageWithRules D rules m (Some '''') = prepareMessageWithRules D rules m None"
      for m
      by (simp add: prepareMessageWithRules_def)
    have q: "query_options ac cliPath (Some '''') tools wd pm =
             query_options ac cliPath None tools wd pm" for tools
      by (simp add: query_options_def)
    show ?thesis
      by (simp only: executeClaudeCommand_eq p q)
  qed
  have r: "''resume'' \<in> dom (query_options ac cliPath sessionId tools wd pm) \<longleftrightarrow> truthy sessionId"
    for tools
    by (simp add: dom_query_options)
  show ?thesis
    using same separator_not_empty [of "getCachedRules D rules" "process_message message"]
      separator_not_empty [of "getCachedRules D rules" "process_message message", symmetric]
    by (simp add: engine_calls_executeClaudeCommand r t [symmetric] prepareMessageWithRules_def)
qed

theorem empty_sessionId_is_new_session_witness:
  "engine_calls (snd (executeClaudeCommand ''RULES'' initial_loader_state
      (engine_always (Ends [1::nat]))
      0 ''hello'' ''r1'' no_controllers ''/cli'' (Some '''') None None None)) =
     [\<lparr>prompt = ''RULES'' @ rules_separator @ ''hello'',
       options = query_options 0 ''/cli'' None
                   [''Read'', ''Grep'', ''Glob'', ''LSP'', ''Task''] None None\<rparr>] \<and>
   ''resume'' \<notin> dom (query_options 0 ''/cli'' None
                   [''Read'', ''Grep'', ''Glob'', ''LSP'', ''Task''] None None) \<and>
   executeClaudeCommand ''RULES'' initial_loader_state (engine_always (Ends [1::nat]))
      0 ''hello'' ''r1'' no_controllers ''/cli'' (Some '''') None None None =
   executeClaudeCommand ''RULES'' initial_loader_state (engine_always (Ends [1::nat]))
      0 ''hello'' ''r1'' no_controllers ''/cli'' None None None None"
proof -
  have calls: "engine_calls (snd (executeClaudeCommand ''RULES'' initial_loader_state
      (engine_always (Ends [1::nat]))
      0 ''hello'' ''r1'' no_controllers ''/cli'' (Some '''') None None None)) =
     [\<lparr>prompt = ''RULES'' @ rules_separator @ ''hello'',
       options = query_options 0 ''/cli'' None
                   [''Read'', ''Grep'', ''Glob'', ''LSP'', ''Task''] None None\<rparr>]"
    by (simp add: engine_calls_executeClaudeCommand prepareMessageWithRules_def
        process_message_def startsWith_def getAllowedTools_def READ_ONLY_TOOLS_def
        getCachedRules_def initial_loader_state_def query_options_def)
  show ?thesis
    using calls empty_sessionId_is_new_session [of "''RULES''" initial_loader_state
      "engine_always (Ends [1::nat])" 0 "''hello''" "''r1''" no_controllers "''/cli''"
      None None None "Some ''''"]
    by simp
qed

section \<open>Properties of the rules loader\<close>

subsection \<open>Claim C9\<close>

text \<open>
  C9. \<open>loadRules\<close> never rejects: its promise always resolves to a text. When the path
  is not initialized it resolves to the default document and leaves the cache alone; when
  the file is absent or reading it fails it resolves to the default document and caches
  it; when the file is read it resolves to the content and caches it. \<open>getCachedRules\<close>
  returns the cached text, or the default document when nothing is cached. After a failed
  load a turn of a new session runs exactly as it does on a loader that never loaded: the
  default document precedes the message, and the turn completes normally with \<open>Done\<close>
  whenever the engine's sequence ends. The failure does not reach the chat path.
\<close>

theorem loadRules_falls_back_to_default:
  "(\<exists>text. fst (loadRules D existsSync readFile st) = Inr text) \<and>
   (\<not> truthy (rulesPath st) \<longrightarrow> loadRules D existsSync readFile st = (Inr D, st)) \<and>
   (rulesPath st = Some path \<and> path \<noteq> '''' \<and> \<not> existsSync path \<longrightarrow>
      loadRules D existsSync readFile st = (Inr D, st\<lparr>cachedRules := Some D\<rparr>)) \<and>
   (rulesPath st = Some path \<and> path \<noteq> '''' \<and> existsSync path \<and> readFile path = Inl failure \<longrightarrow>
      loadRules D existsSync readFile st = (Inr D, st\<lparr>cachedRules := Some D\<rparr>)) \<and>
   (rulesPath st = Some path \<and> path \<noteq> '''' \<and> existsSync path \<and> readFile path = Inr content \<longrightarrow>
      loadRules D existsSync readFile st = (Inr content, st\<lparr>cachedRules := Some content\<rparr>)) \<and>
   getCachedRules D st = (case cachedRules st of None \<Rightarrow> D | Some cached \<Rightarrow> cached) \<and>
   getCachedRules D initial_loader_state = D \<and>
   (rulesPath st = Some path \<and> path \<noteq> '''' \<and>
      (\<not> existsSync path \<or> readFile path = Inl failure) \<longrightarrow>
      getCachedRules D (snd (loadRules D existsSync readFile st)) = D \<and>
      executeClaudeCommand D (snd (loadRules D existsSync readFile st)) query ac message
          requestId rac cliPath None allowedTools wd pm =
        executeClaudeCommand D initial_loader_state query ac message
          requestId rac cliPath None allowedTools wd pm \<and>
      (\<forall>msgs. query \<lparr>prompt = D @ rules_separator @ process_message message,
                      options = query_options ac cliPath None (getAllowedTools allowedTools)
                                  wd pm\<rparr> = Ends msgs \<longrightarrow>
         fst (executeClaudeCommand D (snd (loadRules D existsSync readFile st)) query ac message
                requestId rac cliPath None allowedTools wd pm) = Normal \<and>
         yielded (snd (executeClaudeCommand D (snd (loadRules D existsSync readFile st)) query ac
                         message requestId rac cliPath None allowedTools wd pm)) =
           map Claude_json msgs @ [Done]) \<and>
      map prompt (engine_calls (snd (executeClaudeCommand D
             (snd (loadRules D existsSync readFile st)) query ac message
             requestId rac cliPath None allowedTools wd pm))) =
        [D @ rules_separator @ process_message message])"
proof -
  have total: "\<exists>text. fst (loadRules D existsSync readFile st) = Inr text"
    by (simp add: loadRules_def split: sum.split)
  have rest: "rulesPath st = Some path \<Longrightarrow> path \<noteq> '''' \<Longrightarrow>
      loadRules D existsSync readFile st =
        (if \<not> existsSync path then (Inr D, st\<lparr>cachedRules := Some D\<rparr>)
         else case readFile path of
                Inr content \<Rightarrow> (Inr content, st\<lparr>cachedRules := Some content\<rparr>)
              | Inl error \<Rightarrow> (Inr D, st\<lparr>cachedRules := Some D\<rparr>))"
    by (simp add: loadRules_def)
  have init: "getCachedRules D initial_loader_state = D"
    by (simp add: getCachedRules_def initial_loader_state_def)
  have first: "(\<not> truthy (rulesPath st) \<longrightarrow> loadRules D existsSync readFile st = (Inr D, st)) \<and>
   (rulesPath st = Some path \<and> path \<noteq> '''' \<and> \<not> existsSync path \<longrightarrow>
      loadRules D existsSync readFile st = (Inr D, st\<lparr>cachedRules := Some D\<rparr>)) \<and>
   (rulesPath st = Some path \<and> path \<noteq> '''' \<and> existsSync path \<and> readFile path = Inl failure \<longrightarrow>
      loadRules D existsSync readFile st = (Inr D, st\<lparr>cachedRules := Some D\<rparr>)) \<and>
   (rulesPath st = Some path \<and> path \<noteq> '''' \<and> existsSync path \<and> readFile path = Inr content \<longrightarrow>
      loadRules D existsSync readFile st = (Inr content, st\<lparr>cachedRules := Some content\<rparr>)) \<and>
   getCachedRules D st = (case cachedRules st of None \<Rightarrow> D | Some cached \<Rightarrow> cached)"
    by (auto simp: rest getCachedRules_def loadRules_def)
  have p1: "prepareMessageWithRules D (st\<lparr>cachedRules := Some D\<rparr>) m None =
              D @ rules_separator @ m" for m
    by (simp add: prepareMessageWithRules_def getCachedRules_def)
  have p2: "prepareMessageWithRules D initial_loader_state m None = D @ rules_separator @ m"
    for m
    by (simp add: prepareMessageWithRules_def init)
  have last: "getCachedRules D (snd (loadRules D existsSync readFile st)) = D \<and>
      executeClaudeCommand D (snd (loadRules D existsSync readFile st)) query ac message
          requestId rac cliPath None allowedTools wd pm =
        executeClaudeCommand D initial_loader_state query ac message
          requestId rac cliPath None allowedTools wd pm \<and>
      (\<forall>msgs. query \<lparr>prompt = D @ rules_separator @ process_message message,
                      options = query_options ac cliPath None (getAllowedTools allowedTools)
                                  wd pm\<rparr> = Ends msgs \<longrightarrow>
         fst (executeClaudeCommand D (snd (loadRules D existsSync readFile st)) query ac message
                requestId rac cliPath None allowedTools wd pm) = Normal \<and>
         yielded (snd (executeClaudeCommand D (snd (loadRules D existsSync readFile st)) query ac
                         message requestId rac cliPath None allowedTools wd pm)) =
           map Claude_json msgs @ [Done]) \<and>
      map prompt (engine_calls (snd (executeClaudeCommand D
             (snd (loadRules D existsSync readFile st)) query ac message
             requestId rac cliPath None allowedTools wd pm))) =
        [D @ rules_separator @ process_message message]"
    if "rulesPath st = Some path \<and> path \<noteq> '''' \<and>
          (\<not> existsSync path \<or> readFile path = Inl failure)"
  proof -
    have st': "snd (loadRules D existsSync readFile st) = st\<lparr>cachedRules := Some D\<rparr>"
      using that by (auto simp: rest)
    show ?thesis
      by (simp add: st' getCachedRules_def executeClaudeCommand_eq p1 p2
          engine_calls_executeClaudeCommand split: engine_outcome.split sum.split)
  qed
  show ?thesis
    using total init first last by blast
qed

theorem loadRules_falls_back_to_default_witness:
  "rulesPath \<lparr>cachedRules = Some ''old'', rulesPath = Some ''/srv/RULES.md''\<rparr> =
     Some ''/srv/RULES.md'' \<and>
   ''/srv/RULES.md'' \<noteq> '''' \<and>
   file_system_always True ''/srv/RULES.md'' \<and>
   file_system_always (Inl (Error_object ''Error'' ''EACCES'') :: thrown + string)
     ''/srv/RULES.md'' = Inl (Error_object ''Error'' ''EACCES'') \<and>
   loadRules ''DEFAULT'' (file_system_always True)
     (file_system_always (Inl (Error_object ''Error'' ''EACCES'')))
     \<lparr>cachedRules = Some ''old'', rulesPath = Some ''/srv/RULES.md''\<rparr> =
     (Inr ''DEFAULT'', \<lparr>cachedRules = Some ''DEFAULT'', rulesPath = Some ''/srv/RULES.md''\<rparr>) \<and>
   \<not> truthy (rulesPath initial_loader_state) \<and>
   loadRules ''DEFAULT'' (file_system_always True)
     (file_system_always (Inl (Error_object ''Error'' ''EACCES''))) initial_loader_state =
     (Inr ''DEFAULT'', initial_loader_state)"
proof -
  have a: "rulesPath \<lparr>cachedRules = Some ''old'', rulesPath = Some ''/srv/RULES.md''\<rparr> =
             Some ''/srv/RULES.md'' \<and>
           ''/srv/RULES.md'' \<noteq> '''' \<and>
           file_system_always True ''/srv/RULES.md'' \<and>
           file_system_always (Inl (Error_object ''Error'' ''EACCES'') :: thrown + string)
             ''/srv/RULES.md'' = Inl (Error_object ''Error'' ''EACCES'')"
    by (simp add: file_system_always_def)
  have b: "\<not> truthy (rulesPath initial_loader_state)"
    by (simp add: initial_loader_state_def)
  have c: "loadRules ''DEFAULT'' (file_system_always True)
     (file_system_always (Inl (Error_object ''Error'' ''EACCES'')))
     \<lparr>cachedRules = Some ''old'', rulesPath = Some ''/srv/RULES.md''\<rparr> =
     (Inr ''DEFAULT'', \<lparr>cachedRules = Some ''DEFAULT'', rulesPath = Some ''/srv/RULES.md''\<rparr>)"
    using a loadRules_falls_back_to_default [of "''DEFAULT''" "file_system_always True"
      "file_system_always (Inl (Error_object ''Error'' ''EACCES''))"
      "\<lparr>cachedRules = Some ''old'', rulesPath = Some ''/srv/RULES.md''\<rparr>"
      "''/srv/RULES.md''" "Error_object ''Error'' ''EACCES''" "''''"
      "engine_always (Ends [1::nat])" 0 "''hi''" "''r1''" no_controllers "''/cli''"
      None None None]
    by simp
  have d: "loadRules ''DEFAULT'' (file_system_always True)
     (file_system_always (Inl (Error_object ''Error'' ''EACCES''))) initial_loader_state =
     (Inr ''DEFAULT'', initial_loader_state)"
    using b loadRules_falls_back_to_default [of "''DEFAULT''" "file_system_always True"
      "file_system_always (Inl (Error_object ''Error'' ''EACCES''))"
      initial_loader_state
      "''/srv/RULES.md''" "Error_object ''Error'' ''EACCES''" "''''"
      "engine_always (Ends [1::nat])" 0 "''hi''" "''r1''" no_controllers "''/cli''"
      None None None]
    by simp
  show ?thesis using a b c d by simp
qed

end
